theory Spec2Isabelle
  imports Complex_Main
begin

section \<open>MRP label merger: the data of \<open>app.py\<close>\<close>

text \<open>
  A spreadsheet cell as pandas hands it to the row loop: an empty cell (\<open>NaN\<close>, the
  values \<open>pd.isna\<close> accepts), a number, or text. A number is the rational it denotes:
  every finite float and every integer is one, and the three operations the loop applies
  to it (\<open>x <= 0\<close>, \<open>x != 0\<close>, \<open>int(x)\<close>) are exact on floats, so nothing is
  rounded. Spreadsheet cells hold no infinities, and an integer cell lies within 64 bits:
  beyond that the preview of line 63 cannot display the table and the run ends there.
\<close>

datatype cell = NaN | Num rat | Text string

record row =
  item_id :: cell
  variation_id :: cell
  quantity :: cell

text \<open>
  The exceptions the body of the row loop can raise: \<open>TypeError\<close> from comparing text
  with \<open>0\<close>, \<open>ValueError\<close> from \<open>int()\<close> on an empty cell or on text that is not
  a number, and whatever \<open>merger.append\<close> raises, with its message.
\<close>

datatype failure = TypeError | ValueError | AppendError string

text \<open>
  What the run reads from outside the script. The label store is keyed by the integer id:
  the path is \<open>mrp_label/{use_id}.pdf\<close> and the decimal form of an integer determines
  it. \<open>append_raises idx j\<close> is the outcome of the \<open>j\<close>-th call (from 0) of
  \<open>merger.append\<close> in the row labelled \<open>idx\<close>: \<open>None\<close> when it returns,
  the exception's message when it raises. \<open>int_of_text\<close> is Python's \<open>int()\<close> on a
  string, \<open>lower_strip\<close> is \<open>s.lower().strip()\<close>; both are left open.
\<close>

record 'p env =
  folder_exists :: bool
  pdf_exists :: "int \<Rightarrow> bool"
  pdf_content :: "int \<Rightarrow> 'p list"
  append_raises :: "nat \<Rightarrow> nat \<Rightarrow> string option"
  int_of_text :: "string \<Rightarrow> int option"
  lower_strip :: "string \<Rightarrow> string"

text \<open>
  The accumulators of the run: the pages in \<open>merger\<close>, the two counters, the ids with
  no file, and the error lines. An error line \<open>f"Row {idx + 2}: {str(e)}"\<close> is kept as
  the pair of the row number \<open>idx + 2\<close> and the exception.
\<close>

record 'p merge_state =
  merger :: "'p list"
  total_pages :: nat
  processed_items :: nat
  missing_pdfs :: "int list"
  errors :: "(nat \<times> failure) list"

definition init_state :: "'p merge_state" where
  "init_state = \<lparr>merger = [], total_pages = 0, processed_items = 0,
                 missing_pdfs = [], errors = []\<rparr>"

section \<open>The row loop\<close>

text \<open>\<open>int(x)\<close> on a number truncates towards zero.\<close>

definition py_trunc :: "rat \<Rightarrow> int" where
  "py_trunc x = (if 0 \<le> x then \<lfloor>x\<rfloor> else \<lceil>x\<rceil>)"

fun py_int :: "'p env \<Rightarrow> cell \<Rightarrow> failure + int" where
  "py_int e NaN = Inl ValueError"
| "py_int e (Num x) = Inr (py_trunc x)"
| "py_int e (Text t) = (case int_of_text e t of None \<Rightarrow> Inl ValueError | Some i \<Rightarrow> Inr i)"

fun pd_notna :: "cell \<Rightarrow> bool" where
  "pd_notna NaN = False"
| "pd_notna (Num x) = True"
| "pd_notna (Text t) = True"

text \<open>\<open>variation_id != 0\<close>: text is never equal to a number.\<close>

fun ne_zero :: "cell \<Rightarrow> bool" where
  "ne_zero NaN = True"
| "ne_zero (Num x) = (x \<noteq> 0)"
| "ne_zero (Text t) = True"

text \<open>Lines 100 to 103: the id whose file is looked up.\<close>

definition use_id :: "'p env \<Rightarrow> row \<Rightarrow> failure + int" where
  "use_id e r =
     (if pd_notna (variation_id r) \<and> ne_zero (variation_id r)
      then py_int e (variation_id r)
      else py_int e (item_id r))"

text \<open>
  Lines 114 to 116, \<open>for _ in range(quantity)\<close>: \<open>j\<close> is the number of the next call of
  \<open>merger.append\<close>, the next argument the number of calls still to make. A call
  that raises leaves the loop with the state as the earlier calls left it.
\<close>

fun merge_copies :: "'p env \<Rightarrow> nat \<Rightarrow> int \<Rightarrow> nat \<Rightarrow> nat \<Rightarrow> 'p merge_state
    \<Rightarrow> 'p merge_state \<times> failure option" where
  "merge_copies e idx uid j 0 s = (s, None)"
| "merge_copies e idx uid j (Suc k) s =
     (case append_raises e idx j of
        Some msg \<Rightarrow> (s, Some (AppendError msg))
      | None \<Rightarrow>
          merge_copies e idx uid (Suc j) k
            (s\<lparr>merger := merger s @ pdf_content e uid, total_pages := total_pages s + 1\<rparr>))"

text \<open>
  How the body of the \<open>try\<close> block ends: it runs to its last line, it executes
  \<open>continue\<close>, or it raises.
\<close>

datatype signal = Normal | Skip | Raise failure

text \<open>Lines 88 to 118, the body of the \<open>try\<close> block for the row \<open>(idx, r)\<close>.\<close>

definition try_body :: "'p env \<Rightarrow> 'p merge_state \<Rightarrow> nat \<times> row \<Rightarrow> 'p merge_state \<times> signal" where
  "try_body e s x =
     (case quantity (snd x) of
        NaN \<Rightarrow> (s, Skip)
      | Text t \<Rightarrow> (s, Raise TypeError)
      | Num q \<Rightarrow>
          if q \<le> 0 then (s, Skip)
          else
            (case use_id e (snd x) of
               Inl err \<Rightarrow> (s, Raise err)
             | Inr uid \<Rightarrow>
                 if \<not> pdf_exists e uid
                 then (s\<lparr>missing_pdfs := missing_pdfs s @ [uid]\<rparr>, Skip)
                 else
                   (case merge_copies e (fst x) uid 0 (nat (py_trunc q)) s of
                      (s', Some err) \<Rightarrow> (s', Raise err)
                    | (s', None) \<Rightarrow>
                        (s'\<lparr>processed_items := processed_items s' + 1\<rparr>, Normal))))"

text \<open>
  Lines 87 to 121, the \<open>try\<close> statement with its handler. The flag tells whether
  \<open>continue\<close> was executed, which skips the rest of the loop body.
\<close>

definition handle_row :: "'p env \<Rightarrow> 'p merge_state \<Rightarrow> nat \<times> row \<Rightarrow> 'p merge_state \<times> bool" where
  "handle_row e s x =
     (case try_body e s x of
        (s', Skip) \<Rightarrow> (s', True)
      | (s', Normal) \<Rightarrow> (s', False)
      | (s', Raise err) \<Rightarrow> (s'\<lparr>errors := errors s' @ [(fst x + 2, err)]\<rparr>, False))"

text \<open>
  The exceptions that reach the handler of line 175 and end the run.
  \<open>progress_bar.progress\<close> raises \<open>StreamlitAPIException\<close> on a float above
  \<open>1.0\<close>, outside the row's \<open>try\<close>; \<open>pd.read_excel\<close> raises on a sheet name
  the workbook does not have.
\<close>

datatype crash = ProgressValueInvalid nat nat | WorksheetNotFound

text \<open>
  Lines 124 and 125: \<open>progress = (idx + 1) / len(df)\<close>. With \<open>idx + 1 \<le> len(df)\<close> the
  quotient is at most \<open>1.0\<close>. Otherwise it exceeds \<open>1\<close> by at least \<open>1 / len(df)\<close>, and
  a sheet has at most \<open>1048576\<close> rows, so it is beyond the \<open>1e-9\<close> the widget tolerates.
\<close>

definition update_progress :: "nat \<Rightarrow> nat \<Rightarrow> 'p merge_state \<Rightarrow> crash + 'p merge_state" where
  "update_progress n idx s = (if n < idx + 1 then Inl (ProgressValueInvalid (idx + 1) n) else Inr s)"

text \<open>Lines 87 to 126, one pass through the loop body; \<open>n\<close> is \<open>len(df)\<close>.\<close>

definition loop_body :: "'p env \<Rightarrow> nat \<Rightarrow> 'p merge_state \<Rightarrow> nat \<times> row \<Rightarrow> crash + 'p merge_state" where
  "loop_body e n s x =
     (case handle_row e s x of
        (s', True) \<Rightarrow> Inr s'
      | (s', False) \<Rightarrow> update_progress n (fst x) s')"

text \<open>Line 86, \<open>for idx, row in df.iterrows()\<close>.\<close>

fun process_rows :: "'p env \<Rightarrow> nat \<Rightarrow> 'p merge_state \<Rightarrow> (nat \<times> row) list \<Rightarrow> crash + 'p merge_state" where
  "process_rows e n s [] = Inr s"
| "process_rows e n s (x # xs) =
     (case loop_body e n s x of
        Inl c \<Rightarrow> Inl c
      | Inr s' \<Rightarrow> process_rows e n s' xs)"

section \<open>The script around the loop\<close>

text \<open>\<open>sep.join(xs)\<close>.\<close>

fun join_str :: "string \<Rightarrow> string list \<Rightarrow> string" where
  "join_str sep [] = []"
| "join_str sep [x] = x"
| "join_str sep (x # y # ys) = x @ sep @ join_str sep (y # ys)"

text \<open>
  \<open>s.replace(old, new)\<close>: every occurrence of \<open>old\<close>, found from the left and not
  overlapping, is replaced.
\<close>

fun py_replace :: "string \<Rightarrow> string \<Rightarrow> string \<Rightarrow> string" where
  "py_replace old new [] = (if old = [] then new else [])"
| "py_replace old new (c # cs) =
     (if old = [] then new @ c # py_replace old new cs
      else if take (length old) (c # cs) = old
        then new @ py_replace old new (drop (length old - 1) cs)
        else c # py_replace old new cs)"

text \<open>Lines 132 and 133.\<close>

definition output_filename :: "string \<Rightarrow> string" where
  "output_filename nm = ''mrp_labels_'' @ py_replace ''.xlsx'' '''' nm @ ''.pdf''"

text \<open>
  A sheet as \<open>pd.read_excel\<close> returns it: the header names, and for each data row the
  cells under the three headers that match the required columns.
\<close>

record sheet =
  columns :: "string list"
  rows :: "row list"

record workbook =
  file_name :: string
  sheets :: "(string \<times> sheet) list"

definition sheet_names :: "workbook \<Rightarrow> string list" where
  "sheet_names wb = map fst (sheets wb)"

text \<open>
  Lines 31 to 44. In the dict comprehension a later header with the same key replaces an
  earlier one.
\<close>

definition column_mapping :: "'p env \<Rightarrow> string list \<Rightarrow> string \<Rightarrow> string option" where
  "column_mapping e cols = map_of (rev (map (\<lambda>c. (lower_strip e c, c)) cols))"

definition missing_columns :: "'p env \<Rightarrow> string list \<Rightarrow> string list" where
  "missing_columns e cols =
     map snd (filter (\<lambda>p. column_mapping e cols (fst p) = None)
       [(''item id'', ''Item ID''), (''variation id'', ''Variation ID''), (''quantity'', ''Quantity'')])"

text \<open>
  Line 59, \<open>dropna(subset=..., how='all')\<close>: the rows keep the labels \<open>0, 1, 2, ...\<close>
  that \<open>read_excel\<close> gave them; the rows empty in all three columns are removed.
\<close>

definition all_nan :: "row \<Rightarrow> bool" where
  "all_nan r = (\<not> pd_notna (item_id r) \<and> \<not> pd_notna (variation_id r) \<and> \<not> pd_notna (quantity r))"

definition dropna :: "row list \<Rightarrow> (nat \<times> row) list" where
  "dropna rs = filter (\<lambda>x. \<not> all_nan (snd x)) (zip [0..<length rs] rs)"

text \<open>What the script shows before it calls \<open>st.stop()\<close>.\<close>

datatype message =
    SheetNotFound
  | AvailableSheets string
  | MissingColumns string
  | AvailableColumns string
  | LabelFolderNotFound

record 'p report =
  items_processed :: nat
  pages_total :: nat
  missing_ids :: "int list"
  row_errors :: "(nat \<times> failure) list"
  pdf_pages :: "'p list"
  suggested_name :: string
  download_offered :: bool

datatype 'p outcome =
    Stopped "message list"
  | Preview
  | Crashed crash
  | Finished "'p report"

text \<open>
  Lines 16 to 177 for a workbook that was read; \<open>clicked\<close> is the state of the button of
  line 66.
\<close>

definition run :: "'p env \<Rightarrow> workbook \<Rightarrow> bool \<Rightarrow> 'p outcome" where
  "run e wb clicked =
     (if ''Item Summary'' \<notin> set (sheet_names wb)
      then Stopped [SheetNotFound,
                    AvailableSheets (''Available sheets: '' @ join_str '', '' (sheet_names wb))]
      else case map_of (sheets wb) ''Item Summary'' of
        None \<Rightarrow> Crashed WorksheetNotFound
      | Some sh \<Rightarrow>
          if missing_columns e (columns sh) \<noteq> []
          then Stopped [MissingColumns (join_str '', '' (missing_columns e (columns sh))),
                        AvailableColumns (''Available columns: '' @ join_str '', '' (columns sh))]
          else if \<not> clicked then Preview
          else if \<not> folder_exists e then Stopped [LabelFolderNotFound]
          else
            (case process_rows e (length (dropna (rows sh))) init_state (dropna (rows sh)) of
               Inl c \<Rightarrow> Crashed c
             | Inr s \<Rightarrow>
                 Finished \<lparr>items_processed = processed_items s,
                           pages_total = total_pages s,
                           missing_ids = missing_pdfs s,
                           row_errors = errors s,
                           pdf_pages = merger s,
                           suggested_name = output_filename (file_name wb),
                           download_offered = (0 < total_pages s)\<rparr>))"

section \<open>Notions the properties are stated with\<close>

text \<open>
  The number of calls of \<open>merger.append\<close> that return before the first one that raises,
  among the calls \<open>j, ..., j + k - 1\<close> of the row \<open>idx\<close>, and the exception of that
  first failing call.
\<close>

fun appended :: "'p env \<Rightarrow> nat \<Rightarrow> nat \<Rightarrow> nat \<Rightarrow> nat" where
  "appended e idx j 0 = 0"
| "appended e idx j (Suc k) =
     (case append_raises e idx j of Some msg \<Rightarrow> 0 | None \<Rightarrow> Suc (appended e idx (Suc j) k))"

fun append_failure :: "'p env \<Rightarrow> nat \<Rightarrow> nat \<Rightarrow> nat \<Rightarrow> failure option" where
  "append_failure e idx j 0 = None"
| "append_failure e idx j (Suc k) =
     (case append_raises e idx j of
        Some msg \<Rightarrow> Some (AppendError msg)
      | None \<Rightarrow> append_failure e idx (Suc j) k)"

text \<open>Whether a recorded exception came from \<open>merger.append\<close>.\<close>

fun append_failed :: "failure \<Rightarrow> bool" where
  "append_failed (AppendError msg) = True"
| "append_failed TypeError = False"
| "append_failed ValueError = False"

text \<open>The pages one row adds to the output: what its pass leaves in an empty merger.\<close>

definition row_pages :: "'p env \<Rightarrow> nat \<times> row \<Rightarrow> 'p list" where
  "row_pages e x = merger (fst (try_body e init_state x))"

text \<open>
  The quantity a row stands for in the page total: its quantity truncated to an integer
  when the quantity is positive and its id resolves to a file that exists, and nothing
  otherwise.
\<close>

definition counted_quantity :: "'p env \<Rightarrow> row \<Rightarrow> nat" where
  "counted_quantity e r =
     (case quantity r of
        Num q \<Rightarrow>
          (if 0 < q then
             (case use_id e r of
                Inr uid \<Rightarrow> if pdf_exists e uid then nat (py_trunc q) else 0
              | Inl err \<Rightarrow> 0)
           else 0)
      | NaN \<Rightarrow> 0
      | Text t \<Rightarrow> 0)"

text \<open>A file name with its \<open>.xlsx\<close> extension removed: only the ending is cut.\<close>

definition remove_xlsx_extension :: "string \<Rightarrow> string" where
  "remove_xlsx_extension nm =
     (if 5 \<le> length nm \<and> drop (length nm - 5) nm = ''.xlsx''
      then take (length nm - 5) nm else nm)"

section \<open>Example inputs\<close>

text \<open>
  A label folder holding \<open>7413.pdf\<close> and \<open>55.pdf\<close>, one page each, every read of
  which succeeds. The headers of the example sheets are lower-case and trimmed, so
  \<open>lower().strip()\<close> leaves them as they are.
\<close>

definition label_store :: "string env" where
  "label_store =
     \<lparr>folder_exists = True,
      pdf_exists = (\<lambda>i. i = 7413 \<or> i = 55),
      pdf_content = (\<lambda>i. if i = 7413 then [''label 7413''] else [''label 55'']),
      append_raises = (\<lambda>idx j. None),
      int_of_text = (\<lambda>t. None),
      lower_strip = (\<lambda>h. h)\<rparr>"

text \<open>The same folder with files that PyPDF2 cannot parse: every append raises.\<close>

definition corrupt_store :: "string env" where
  "corrupt_store = label_store\<lparr>append_raises := (\<lambda>idx j. Some ''EOF marker not found'')\<rparr>"

text \<open>The same folder where the second append of a row raises.\<close>

definition flaky_store :: "string env" where
  "flaky_store =
     label_store\<lparr>append_raises := (\<lambda>idx j. if j = 1 then Some ''Too many open files'' else None)\<rparr>"

definition row_7413 :: row where
  "row_7413 = \<lparr>item_id = Num 7413, variation_id = Num 0, quantity = Num 3\<rparr>"

definition row_55 :: row where
  "row_55 = \<lparr>item_id = Num 100, variation_id = Num 55, quantity = Num 1\<rparr>"

definition row_9 :: row where
  "row_9 = \<lparr>item_id = Num 9, variation_id = Num 0, quantity = Num 0\<rparr>"

definition row_100 :: row where
  "row_100 = \<lparr>item_id = Num 100, variation_id = NaN, quantity = Num 2\<rparr>"

definition row_half :: row where
  "row_half = \<lparr>item_id = Num 7413, variation_id = Num 0, quantity = Num (1 / 2)\<rparr>"

definition row_blank :: row where
  "row_blank = \<lparr>item_id = NaN, variation_id = NaN, quantity = NaN\<rparr>"

definition row_no_id :: row where
  "row_no_id = \<lparr>item_id = NaN, variation_id = NaN, quantity = Num 2\<rparr>"

definition summary_workbook :: "row list \<Rightarrow> workbook" where
  "summary_workbook rs =
     \<lparr>file_name = ''orders.xlsx'',
      sheets = [(''Item Summary'',
                 \<lparr>columns = [''item id'', ''variation id'', ''quantity''], rows = rs\<rparr>)]\<rparr>"

definition two_sheet_workbook :: workbook where
  "two_sheet_workbook =
     \<lparr>file_name = ''orders.xlsx'',
      sheets = [(''Sheet1'', \<lparr>columns = [], rows = []\<rparr>), (''Data'', \<lparr>columns = [], rows = []\<rparr>)]\<rparr>"

lemmas loop_defs =
  loop_body_def handle_row_def try_body_def use_id_def update_progress_def py_trunc_def
  init_state_def

section \<open>The merge loop in closed form\<close>

lemma merge_copies_eq:
  "merge_copies e idx uid j k s =
     (s\<lparr>merger := merger s @ concat (replicate (appended e idx j k) (pdf_content e uid)),
        total_pages := total_pages s + appended e idx j k\<rparr>,
      append_failure e idx j k)"
proof (induction k arbitrary: j s)
  case 0
  show ?case by simp
next
  case (Suc k)
  show ?case
  proof (cases "append_raises e idx j")
    case None
    then show ?thesis by (simp add: Suc.IH)
  next
    case (Some msg)
    then show ?thesis by simp
  qed
qed

lemma appended_all:
  "append_failure e idx j k = None \<Longrightarrow> appended e idx j k = k"
  by (induction k arbitrary: j) (auto split: option.splits)

lemma append_failure_kind:
  "append_failure e idx j k = Some f \<Longrightarrow> append_failed f"
  by (induction k arbitrary: j) (auto split: option.splits)

lemma appended_no_raise:
  "(\<forall>i<k. append_raises e idx (j + i) = None) \<Longrightarrow> appended e idx j k = k \<and> append_failure e idx j k = None"
proof (induction k arbitrary: j)
  case 0
  show ?case by simp
next
  case (Suc k)
  from Suc.prems have h0: "append_raises e idx j = None"
    by (metis add.right_neutral zero_less_Suc)
  have "\<forall>i<k. append_raises e idx (Suc j + i) = None"
  proof (intro allI impI)
    fix i assume "i < k"
    then have "Suc i < Suc k" by simp
    with Suc.prems have "append_raises e idx (j + Suc i) = None" by blast
    then show "append_raises e idx (Suc j + i) = None" by simp
  qed
  from Suc.IH [OF this] h0 show ?case by simp
qed

lemma appended_raise_at:
  "m < k \<Longrightarrow> (\<forall>i<m. append_raises e idx (j + i) = None) \<Longrightarrow> append_raises e idx (j + m) = Some msg
   \<Longrightarrow> appended e idx j k = m \<and> append_failure e idx j k = Some (AppendError msg)"
proof (induction k arbitrary: j m)
  case 0
  then show ?case by simp
next
  case (Suc k)
  show ?case
  proof (cases m)
    case 0
    with Suc.prems show ?thesis by simp
  next
    case (Suc m')
    from Suc.prems(2) Suc have h0: "append_raises e idx j = None"
      by (metis add.right_neutral zero_less_Suc)
    have a: "m' < k" using Suc.prems(1) Suc by simp
    have b: "\<forall>i<m'. append_raises e idx (Suc j + i) = None"
    proof (intro allI impI)
      fix i assume "i < m'"
      then have "Suc i < m" using Suc by simp
      with Suc.prems(2) have "append_raises e idx (j + Suc i) = None" by blast
      then show "append_raises e idx (Suc j + i) = None" by simp
    qed
    have c: "append_raises e idx (Suc j + m') = Some msg"
      using Suc.prems(3) Suc by simp
    from Suc.IH [OF a b c] h0 Suc show ?thesis by simp
  qed
qed

lemma try_body_merger:
  "merger (fst (try_body e s x)) = merger s @ row_pages e x"
  by (simp add: try_body_def row_pages_def merge_copies_eq init_state_def
      split: cell.splits sum.splits option.splits)

lemma handle_row_merger:
  "merger (fst (handle_row e s x)) = merger s @ row_pages e x"
  using try_body_merger [of e s x]
  by (cases "try_body e s x") (simp add: handle_row_def split: signal.splits)

lemma loop_body_merger:
  "loop_body e n s x = Inr s' \<Longrightarrow> merger s' = merger s @ row_pages e x"
  using handle_row_merger [of e s x]
  by (cases "handle_row e s x")
     (auto simp: loop_body_def update_progress_def split: if_splits bool.splits)

lemma process_rows_merger:
  "process_rows e n s df = Inr s' \<Longrightarrow> merger s' = merger s @ concat (map (row_pages e) df)"
proof (induction df arbitrary: s)
  case Nil
  then show ?case by simp
next
  case (Cons x xs)
  then obtain s1 where 1: "loop_body e n s x = Inr s1" and 2: "process_rows e n s1 xs = Inr s'"
    by (auto split: sum.splits)
  from Cons.IH [OF 2] loop_body_merger [OF 1] show ?case by simp
qed


lemma handle_row_errors:
  "\<exists>ys. errors (fst (handle_row e s x)) = errors s @ ys"
  by (simp add: handle_row_def try_body_def merge_copies_eq
      split: cell.splits sum.splits option.splits)

lemma handle_row_total:
  "errors (fst (handle_row e s x)) = errors s @ ys \<Longrightarrow> \<forall>y\<in>set ys. \<not> append_failed (snd y) \<Longrightarrow>
   total_pages (fst (handle_row e s x)) = total_pages s + counted_quantity e (snd x)"
  by (auto simp: handle_row_def try_body_def merge_copies_eq counted_quantity_def appended_all
      dest: append_failure_kind
      split: cell.splits sum.splits option.splits if_splits)

lemma loop_body_state:
  "loop_body e n s x = Inr s' \<Longrightarrow> s' = fst (handle_row e s x)"
  by (cases "handle_row e s x")
     (auto simp: loop_body_def update_progress_def split: if_splits bool.splits)

lemma process_rows_errors:
  "process_rows e n s df = Inr s' \<Longrightarrow> \<exists>ys. errors s' = errors s @ ys"
proof (induction df arbitrary: s)
  case Nil
  then show ?case by simp
next
  case (Cons x xs)
  then obtain s1 where 1: "loop_body e n s x = Inr s1" and 2: "process_rows e n s1 xs = Inr s'"
    by (auto split: sum.splits)
  from loop_body_state [OF 1] handle_row_errors [of e s x]
  obtain ys where "errors s1 = errors s @ ys" by auto
  moreover from Cons.IH [OF 2] obtain zs where "errors s' = errors s1 @ zs" by auto
  ultimately show ?case by simp
qed

lemma process_rows_total:
  "process_rows e n s df = Inr s' \<Longrightarrow> errors s' = errors s @ ys \<Longrightarrow>
   \<forall>y\<in>set ys. \<not> append_failed (snd y) \<Longrightarrow>
   total_pages s' = total_pages s + (\<Sum>x\<leftarrow>df. counted_quantity e (snd x))"
proof (induction df arbitrary: s ys)
  case Nil
  then show ?case by simp
next
  case (Cons x xs)
  from Cons.prems(1) obtain s1 where 1: "loop_body e n s x = Inr s1"
      and 2: "process_rows e n s1 xs = Inr s'"
    by (auto split: sum.splits)
  have s1: "s1 = fst (handle_row e s x)" by (rule loop_body_state [OF 1])
  from s1 handle_row_errors [of e s x]
  obtain as where as: "errors s1 = errors s @ as" by auto
  from process_rows_errors [OF 2] obtain bs where bs: "errors s' = errors s1 @ bs" by auto
  from as bs Cons.prems(2) have ys: "ys = as @ bs" by simp
  with Cons.prems(3) have ok_a: "\<forall>y\<in>set as. \<not> append_failed (snd y)"
    and ok_b: "\<forall>y\<in>set bs. \<not> append_failed (snd y)" by simp_all
  from handle_row_total [of e s x as] as s1 ok_a
  have "total_pages s1 = total_pages s + counted_quantity e (snd x)" by simp
  with Cons.IH [OF 2 bs ok_b] show ?case by simp
qed

section \<open>When the loop reaches the end of the table\<close>

text \<open>
  A pass whose row label is below \<open>len(df)\<close> never ends the run, so a table whose labels
  are all below its length (no row was dropped before a kept one) is processed to the end.
\<close>

lemma loop_body_returns:
  "fst x < n \<Longrightarrow> loop_body e n s x = Inr (fst (handle_row e s x))"
  by (cases "handle_row e s x")
     (auto simp: loop_body_def update_progress_def split: bool.splits)

lemma process_rows_returns:
  "\<forall>x\<in>set df. fst x < n \<Longrightarrow> \<exists>s'. process_rows e n s df = Inr s'"
  by (induction df arbitrary: s) (simp_all add: loop_body_returns)

section \<open>The page total\<close>

text \<open>
  C1. For every input where all rows are processed, that is, the loop reaches the end of
  the table and no row's merge was cut short by an exception of \<open>merger.append\<close>,
  the final \<open>total_pages\<close> is the sum of the truncated quantities of the rows with a
  positive quantity whose id resolved to an existing label file. Rows whose file is
  missing add nothing, and neither do rows that are skipped or whose cells cannot be
  coerced.
\<close>

theorem total_pages_is_sum_of_quantities:
  assumes "process_rows e n init_state df = Inr s"
    and "\<forall>y\<in>set (errors s). \<not> append_failed (snd y)"
  shows "total_pages s = (\<Sum>x\<leftarrow>df. counted_quantity e (snd x))"
  using process_rows_total [of e n init_state df s "errors s"] assms
  by (simp add: init_state_def)

theorem total_pages_is_sum_of_quantities_witness:
  "process_rows label_store 4 init_state [(0, row_7413), (1, row_55), (2, row_9), (3, row_no_id)] =
     Inr \<lparr>merger = [''label 7413'', ''label 7413'', ''label 7413'', ''label 55''],
          total_pages = 4, processed_items = 2, missing_pdfs = [], errors = [(5, ValueError)]\<rparr>
   \<and> (\<Sum>x\<leftarrow>[(0::nat, row_7413), (1, row_55), (2, row_9), (3, row_no_id)].
         counted_quantity label_store (snd x)) = 4"
proof -
  let ?s = "\<lparr>merger = [''label 7413'', ''label 7413'', ''label 7413'', ''label 55''],
          total_pages = 4, processed_items = 2, missing_pdfs = [], errors = [(5, ValueError)]\<rparr>"
  have run: "process_rows label_store 4 init_state
               [(0, row_7413), (1, row_55), (2, row_9), (3, row_no_id)] = Inr ?s"
    by (simp add: label_store_def row_7413_def row_55_def row_9_def row_no_id_def loop_defs eval_nat_numeral)
  have no_err: "\<forall>y\<in>set (errors ?s). \<not> append_failed (snd y)" by simp
  from total_pages_is_sum_of_quantities [OF run no_err] run show ?thesis by simp
qed

section \<open>Copies and their order\<close>

lemma row_pages_copies:
  assumes "quantity r = Num q" and "0 < q" and "use_id e r = Inr uid" and "pdf_exists e uid"
    and "\<forall>j<nat (py_trunc q). append_raises e idx j = None"
  shows "row_pages e (idx, r) = concat (replicate (nat (py_trunc q)) (pdf_content e uid))"
  using assms appended_no_raise [of "nat (py_trunc q)" e idx 0]
  by (simp add: row_pages_def try_body_def merge_copies_eq init_state_def)

text \<open>
  C2, as the code has it. In a run that reaches the end of the table, a row with quantity
  \<open>q > 0\<close> whose label file exists and for which every call of \<open>merger.append\<close> returns
  puts exactly \<open>int(q)\<close> consecutive copies of the file's content into the output, after
  all pages of the rows before it and before all pages of the rows after it.
\<close>

theorem copies_in_row_order:
  assumes "process_rows e n init_state (pre @ (idx, r) # post) = Inr s"
    and "quantity r = Num q" and "0 < q"
    and "use_id e r = Inr uid" and "pdf_exists e uid"
    and "\<forall>j<nat (py_trunc q). append_raises e idx j = None"
  shows "merger s = concat (map (row_pages e) pre)
           @ concat (replicate (nat (py_trunc q)) (pdf_content e uid))
           @ concat (map (row_pages e) post)"
  using process_rows_merger [OF assms(1)] row_pages_copies [OF assms(2-6)]
  by (simp add: init_state_def)

theorem copies_in_row_order_witness:
  "process_rows label_store 3 init_state ([(0, row_7413)] @ (1, row_55) # [(2, row_9)]) =
     Inr \<lparr>merger = [''label 7413'', ''label 7413'', ''label 7413'', ''label 55''],
          total_pages = 4, processed_items = 2, missing_pdfs = [], errors = []\<rparr>
   \<and> [''label 7413'', ''label 7413'', ''label 7413'', ''label 55''] =
       concat (map (row_pages label_store) [(0, row_7413)])
         @ concat (replicate (nat (py_trunc 1)) (pdf_content label_store 55))
         @ concat (map (row_pages label_store) [(2, row_9)])"
proof -
  let ?s = "\<lparr>merger = [''label 7413'', ''label 7413'', ''label 7413'', ''label 55''],
          total_pages = 4, processed_items = 2, missing_pdfs = [], errors = []\<rparr>"
  have run: "process_rows label_store 3 init_state ([(0, row_7413)] @ (1, row_55) # [(2, row_9)]) = Inr ?s"
    by (simp add: label_store_def row_7413_def row_55_def row_9_def loop_defs eval_nat_numeral)
  have q: "quantity row_55 = Num 1" and pos: "(0::rat) < 1"
    and uid: "use_id label_store row_55 = Inr 55" and ex: "pdf_exists label_store 55"
    and ok: "\<forall>j<nat (py_trunc 1). append_raises label_store 1 j = None"
    by (simp_all add: label_store_def row_7413_def row_55_def row_9_def loop_defs)
  from copies_in_row_order [OF run q pos uid ex ok] run show ?thesis by simp
qed

text \<open>
  C2, as it is worded, asks for the copies of every row with a positive quantity and an
  existing file. A file that exists and cannot be read gets none: with quantity 3 and
  \<open>7413.pdf\<close> present but unparseable, the run ends with an empty output and one error
  line, where three copies were promised.
\<close>

theorem copies_of_corrupt_file_counterexample:
  "process_rows corrupt_store 1 init_state [(0, row_7413)] =
     Inr \<lparr>merger = [], total_pages = 0, processed_items = 0, missing_pdfs = [],
          errors = [(2, AppendError ''EOF marker not found'')]\<rparr>
   \<and> quantity row_7413 = Num 3 \<and> use_id corrupt_store row_7413 = Inr 7413
   \<and> pdf_exists corrupt_store 7413
   \<and> concat (replicate 3 (pdf_content corrupt_store 7413)) =
       [''label 7413'', ''label 7413'', ''label 7413'']"
  by (simp add: corrupt_store_def label_store_def row_7413_def loop_defs eval_nat_numeral)

section \<open>The id that is looked up\<close>



text \<open>
  A variation cell that holds text is never equal to the number 0 for Python, so the
  variation id is taken from it, also when the text is \<open>0\<close>. A row whose chosen cell is
  empty has no id, and its pass raises.
\<close>

lemma text_variation_used:
  assumes "variation_id r = Text t"
  shows "use_id e r = (case int_of_text e t of None \<Rightarrow> Inl ValueError | Some i \<Rightarrow> Inr i)"
  using assms by (simp add: use_id_def)

lemma unresolved_id_raises:
  assumes "quantity r = Num q" and "0 < q"
    and "variation_id r = NaN \<or> variation_id r = Num 0" and "item_id r = NaN"
  shows "try_body e s (idx, r) = (s, Raise ValueError)"
  using assms by (auto simp: try_body_def use_id_def)

section \<open>Rows that are skipped\<close>

text \<open>
  C4. A row whose quantity is empty or at most 0 is skipped: the run goes on with the
  following rows from an unchanged state, so the row adds no page, does not count as
  processed and leaves no error line.
\<close>

theorem nonpositive_quantity_skipped:
  assumes "quantity r = NaN \<or> (\<exists>q. quantity r = Num q \<and> q \<le> 0)"
  shows "process_rows e n s ((idx, r) # rest) = process_rows e n s rest"
  using assms by (auto simp: loop_body_def handle_row_def try_body_def)

theorem nonpositive_quantity_skipped_witness:
  "(quantity row_9 = NaN \<or> (\<exists>q. quantity row_9 = Num q \<and> q \<le> 0))
   \<and> process_rows label_store 3 init_state [(2, row_9)] = Inr init_state"
proof -
  have h: "quantity row_9 = NaN \<or> (\<exists>q. quantity row_9 = Num q \<and> q \<le> 0)"
    by (simp add: row_9_def)
  from nonpositive_quantity_skipped [OF h, of label_store 3 init_state 2 "[]"] h
  show ?thesis by simp
qed

text \<open>
  C6. A row with a positive quantity whose label file does not exist adds its id to
  \<open>missing_pdfs\<close> and changes nothing else; it does not end the run, which goes on
  with the following rows.
\<close>

theorem missing_file_recorded:
  assumes "quantity r = Num q" and "0 < q" and "use_id e r = Inr uid" and "\<not> pdf_exists e uid"
  shows "process_rows e n s ((idx, r) # rest) =
         process_rows e n (s\<lparr>missing_pdfs := missing_pdfs s @ [uid]\<rparr>) rest"
  using assms by (simp add: loop_body_def handle_row_def try_body_def)

theorem missing_file_recorded_witness:
  "quantity row_100 = Num 2 \<and> (0::rat) < 2 \<and> use_id label_store row_100 = Inr 100
   \<and> \<not> pdf_exists label_store 100
   \<and> process_rows label_store 2 init_state [(0, row_100), (1, row_55)] =
       Inr \<lparr>merger = [''label 55''], total_pages = 1, processed_items = 1,
            missing_pdfs = [100], errors = []\<rparr>"
proof -
  have q: "quantity row_100 = Num 2" and pos: "(0::rat) < 2"
    and uid: "use_id label_store row_100 = Inr 100" and ex: "\<not> pdf_exists label_store 100"
    by (simp_all add: label_store_def row_100_def row_55_def loop_defs)
  have rest: "process_rows label_store 2 (init_state\<lparr>missing_pdfs := missing_pdfs init_state @ [100]\<rparr>)
                [(1, row_55)] =
              Inr \<lparr>merger = [''label 55''], total_pages = 1, processed_items = 1,
                   missing_pdfs = [100], errors = []\<rparr>"
    by (simp add: label_store_def row_100_def row_55_def loop_defs eval_nat_numeral)
  from missing_file_recorded [OF q pos uid ex, of 2 init_state 0 "[(1, row_55)]"] rest q pos uid ex
  show ?thesis by simp
qed

section \<open>Quantities below one\<close>

lemma py_trunc_fraction: "0 < q \<Longrightarrow> q < 1 \<Longrightarrow> py_trunc q = 0"
  by (simp add: py_trunc_def floor_eq_iff)

text \<open>
  C9. A row whose raw quantity lies strictly between 0 and 1 and whose label file exists
  passes the \<open>quantity <= 0\<close> test, is truncated to 0 repetitions, appends nothing, and
  still raises \<open>processed_items\<close> by one.
\<close>

theorem fractional_quantity_counted:
  assumes "quantity r = Num q" and "0 < q" and "q < 1"
    and "use_id e r = Inr uid" and "pdf_exists e uid"
  shows "handle_row e s (idx, r) = (s\<lparr>processed_items := processed_items s + 1\<rparr>, False)"
  using assms by (simp add: handle_row_def try_body_def py_trunc_fraction)

theorem fractional_quantity_counted_witness:
  "quantity row_half = Num (1 / 2) \<and> (0::rat) < 1 / 2 \<and> (1 / 2 :: rat) < 1
   \<and> use_id label_store row_half = Inr 7413 \<and> pdf_exists label_store 7413
   \<and> handle_row label_store init_state (0, row_half) =
       (\<lparr>merger = [], total_pages = 0, processed_items = 1, missing_pdfs = [], errors = []\<rparr>,
        False)"
proof -
  have q: "quantity row_half = Num (1 / 2)" and pos: "(0::rat) < 1 / 2" and lt: "(1 / 2 :: rat) < 1"
    and uid: "use_id label_store row_half = Inr 7413" and ex: "pdf_exists label_store 7413"
    by (simp_all add: label_store_def row_half_def loop_defs)
  from fractional_quantity_counted [OF q pos lt uid ex, of init_state 0] q pos lt uid ex
  show ?thesis by (simp add: init_state_def)
qed

section \<open>Rows that raise\<close>

text \<open>
  C10. When the append of a row's file raises after \<open>k\<close> of its repetitions have
  succeeded, the \<open>k\<close> copies stay in the output and \<open>total_pages\<close> keeps its \<open>k\<close>
  increments, \<open>processed_items\<close> is not raised, and an error line for the row is
  recorded.
\<close>

theorem partial_append_kept:
  assumes "quantity r = Num q" and "0 < q" and "use_id e r = Inr uid" and "pdf_exists e uid"
    and "k < nat (py_trunc q)"
    and "\<forall>j<k. append_raises e idx j = None"
    and "append_raises e idx k = Some msg"
  shows "handle_row e s (idx, r) =
         (s\<lparr>merger := merger s @ concat (replicate k (pdf_content e uid)),
            total_pages := total_pages s + k,
            errors := errors s @ [(idx + 2, AppendError msg)]\<rparr>, False)"
  using assms appended_raise_at [of k "nat (py_trunc q)" e idx 0 msg]
  by (simp add: handle_row_def try_body_def merge_copies_eq)

theorem partial_append_kept_witness:
  "quantity row_7413 = Num 3 \<and> (0::rat) < 3 \<and> use_id flaky_store row_7413 = Inr 7413
   \<and> pdf_exists flaky_store 7413 \<and> 1 < nat (py_trunc 3)
   \<and> append_raises flaky_store 0 0 = None
   \<and> append_raises flaky_store 0 1 = Some ''Too many open files''
   \<and> handle_row flaky_store init_state (0, row_7413) =
       (\<lparr>merger = [''label 7413''], total_pages = 1, processed_items = 0, missing_pdfs = [],
         errors = [(2, AppendError ''Too many open files'')]\<rparr>, False)"
proof -
  have q: "quantity row_7413 = Num 3" and pos: "(0::rat) < 3"
    and uid: "use_id flaky_store row_7413 = Inr 7413" and ex: "pdf_exists flaky_store 7413"
    and k: "1 < nat (py_trunc 3)"
    and before: "\<forall>j<1. append_raises flaky_store 0 j = None"
    and at: "append_raises flaky_store 0 1 = Some ''Too many open files''"
    by (simp_all add: flaky_store_def label_store_def row_7413_def loop_defs)
  from partial_append_kept [OF q pos uid ex k before at, of init_state] q pos uid ex k before at
  show ?thesis by (simp add: init_state_def flaky_store_def label_store_def)
qed

text \<open>
  A row that raises is caught and the run goes on with the following rows, as long as
  the row's label is below \<open>len(df)\<close>.
\<close>

lemma row_error_continues:
  assumes "snd (try_body e s (idx, r)) = Raise err" and "idx < n"
  shows "process_rows e n s ((idx, r) # rest) =
         process_rows e n ((fst (try_body e s (idx, r)))\<lparr>errors :=
            errors (fst (try_body e s (idx, r))) @ [(idx + 2, err)]\<rparr>) rest"
  using assms
  by (cases "try_body e s (idx, r)") (simp add: loop_body_def handle_row_def update_progress_def)

text \<open>
  C5 says that no failing row ends the run. The sheet with a label row, a blank row and a
  row whose id cells are empty shows one that does: \<open>dropna\<close> keeps the labels 0 and 2
  of a table of length 2, the last row raises \<open>ValueError\<close> in \<open>int(item_id)\<close>, the
  handler records \<open>Row 4\<close>, and the progress update that follows computes \<open>3 / 2\<close>,
  which the widget rejects with an exception no handler inside the loop catches. The run
  ends without the output, the report or the error line.
\<close>

theorem bad_row_after_blank_row_aborts:
  "dropna [row_7413, row_blank, row_no_id] = [(0, row_7413), (2, row_no_id)]
   \<and> handle_row label_store init_state (2, row_no_id) =
       (\<lparr>merger = [], total_pages = 0, processed_items = 0, missing_pdfs = [],
         errors = [(4, ValueError)]\<rparr>, False)
   \<and> run label_store (summary_workbook [row_7413, row_blank, row_no_id]) True =
       Crashed (ProgressValueInvalid 3 2)"
  by (simp add: label_store_def row_7413_def row_blank_def row_no_id_def
      summary_workbook_def loop_defs run_def dropna_def all_nan_def missing_columns_def
      column_mapping_def sheet_names_def upt_rec eval_nat_numeral)

section \<open>The sheet check\<close>

text \<open>
  C7. When the workbook has no sheet named \<open>Item Summary\<close> the run stops at once,
  whatever the rows, the label folder and the button are, and the message lists the
  names of the sheets the workbook has.
\<close>

theorem sheet_missing_stops:
  assumes "''Item Summary'' \<notin> set (sheet_names wb)"
  shows "run e wb clicked =
         Stopped [SheetNotFound,
                  AvailableSheets (''Available sheets: '' @ join_str '', '' (sheet_names wb))]"
  using assms by (simp add: run_def)

theorem sheet_missing_stops_witness:
  "''Item Summary'' \<notin> set (sheet_names two_sheet_workbook)
   \<and> run label_store two_sheet_workbook True =
       Stopped [SheetNotFound, AvailableSheets ''Available sheets: Sheet1, Data'']"
proof -
  have h: "''Item Summary'' \<notin> set (sheet_names two_sheet_workbook)"
    by (simp add: two_sheet_workbook_def sheet_names_def)
  from sheet_missing_stops [OF h, of label_store True] h show ?thesis
    by (simp add: two_sheet_workbook_def sheet_names_def)
qed

section \<open>The output file name\<close>

text \<open>
  For a name whose only dot is the one of its \<open>.xlsx\<close> ending, the suggested name is
  the pattern around the name without the ending.
\<close>

lemma py_replace_no_dot:
  "CHR ''.'' \<notin> set base \<Longrightarrow> py_replace ''.xlsx'' '''' (base @ ''.xlsx'') = base"
  by (induction base) auto

lemma output_filename_plain:
  "CHR ''.'' \<notin> set base \<Longrightarrow> output_filename (base @ ''.xlsx'') = ''mrp_labels_'' @ base @ ''.pdf''"
  by (simp add: output_filename_def py_replace_no_dot)

text \<open>
  C8 says that the suggested name is \<open>mrp_labels_{baseName}.pdf\<close> with the \<open>.xlsx\<close>
  extension removed from the uploaded name. \<open>str.replace\<close> removes every \<open>.xlsx\<close> in
  the name, not only the extension: for \<open>orders.xlsx.xlsx\<close> the script suggests
  \<open>mrp_labels_orders.pdf\<close>, and the name without its extension gives
  \<open>mrp_labels_orders.xlsx.pdf\<close>.
\<close>

theorem output_filename_inner_xlsx:
  "output_filename ''orders.xlsx.xlsx'' = ''mrp_labels_orders.pdf''
   \<and> ''mrp_labels_'' @ remove_xlsx_extension ''orders.xlsx.xlsx'' @ ''.pdf'' =
       ''mrp_labels_orders.xlsx.pdf''"
  by (simp add: output_filename_def remove_xlsx_extension_def)

end
